theory Spec2Isabelle
  imports Main "HOL-Library.Sublist"
begin

section \<open>Python values used by \<^verbatim>\<open>main.py\<close>\<close>

text \<open>
  A Python \<^verbatim>\<open>str\<close> is a sequence of Unicode code points and \<^verbatim>\<open>len\<close> counts code
  points, so a string is modelled as the list of its code points. Every \<open>nat\<close> list is
  admitted, which covers every Python string. The ASCII literals of the source are written
  \<open>lit ''...''\<close>.
\<close>

type_synonym ustr = "nat list"

definition lit :: "string \<Rightarrow> ustr" where
  "lit s = map of_char s"

text \<open>The escape \<^verbatim>\<open>\n\<close> of the source's string literals: the line feed, code point 10.\<close>

definition nl :: ustr where
  "nl = [10]"

text \<open>
  What an f-string field \<^verbatim>\<open>{i+1}\<close> renders for an integer: its decimal digits, with a
  minus sign in front of a negative number.
\<close>

fun digits :: "nat \<Rightarrow> ustr" where
  "digits n = (if n < 10 then [48 + n] else digits (n div 10) @ [48 + n mod 10])"

declare digits.simps [simp del]

definition str_of_int :: "int \<Rightarrow> ustr" where
  "str_of_int i = (if i < 0 then 45 # digits (nat (- i)) else digits (nat i))"

text \<open>\<^verbatim>\<open>s * n\<close> on a string: \<open>n\<close> copies of \<open>s\<close>, none when \<open>n\<close> is not positive.\<close>

definition str_mul :: "ustr \<Rightarrow> int \<Rightarrow> ustr" where
  "str_mul s n = concat (replicate (nat n) s)"

text \<open>\<^verbatim>\<open>len(xs)\<close> is a Python integer.\<close>

definition len :: "'a list \<Rightarrow> int" where
  "len xs = int (length xs)"

text \<open>\<^verbatim>\<open>range(n)\<close>: the integers \<open>0, ..., n - 1\<close>, none when \<open>n \<le> 0\<close>.\<close>

definition py_range :: "int \<Rightarrow> int list" where
  "py_range n = map int [0..<nat n]"

datatype py_error = IndexError | KeyError

text \<open>
  \<^verbatim>\<open>xs[i]\<close> on a list: a negative index counts from the end, and an index outside the
  list raises \<^verbatim>\<open>IndexError\<close>.
\<close>

definition list_getitem :: "'a list \<Rightarrow> int \<Rightarrow> py_error + 'a" where
  "list_getitem xs i =
     (if 0 \<le> i \<and> i < len xs then Inr (xs ! nat i)
      else if - len xs \<le> i \<and> i < 0 then Inr (xs ! nat (i + len xs))
      else Inl IndexError)"

text \<open>
  A dict display \<^verbatim>\<open>{k1: v1, k2: v2, ...}\<close> with string keys: entries are stored from left to
  right, so for a repeated key the last entry stays.
\<close>

definition dict_literal :: "(ustr \<times> 'v) list \<Rightarrow> (ustr \<rightharpoonup> 'v)" where
  "dict_literal kvs = map_of (rev kvs)"

text \<open>\<^verbatim>\<open>d[k]\<close> raises \<^verbatim>\<open>KeyError\<close> for a missing key; \<^verbatim>\<open>d.get(k, default)\<close> does not.\<close>

definition dict_getitem :: "(ustr \<rightharpoonup> 'v) \<Rightarrow> ustr \<Rightarrow> py_error + 'v" where
  "dict_getitem d k = (case d k of None \<Rightarrow> Inl KeyError | Some v \<Rightarrow> Inr v)"

definition dict_get :: "(ustr \<rightharpoonup> 'v) \<Rightarrow> ustr \<Rightarrow> 'v \<Rightarrow> 'v" where
  "dict_get d k dflt = (case d k of None \<Rightarrow> dflt | Some v \<Rightarrow> v)"

section \<open>The template table\<close>

definition business_titles :: "ustr list" where
  "business_titles =
     [lit ''Executive Summary'',
      lit ''Problem Statement'',
      lit ''Market Analysis'',
      lit ''Solution Overview'',
      lit ''Business Model'',
      lit ''Financial Projections'',
      lit ''Implementation Timeline'',
      lit ''Team & Resources'',
      lit ''Risk Assessment'',
      lit ''Call to Action'']"

definition technical_titles :: "ustr list" where
  "technical_titles =
     [lit ''Introduction & Overview'',
      lit ''Problem Definition'',
      lit ''Technical Requirements'',
      lit ''Architecture & Design'',
      lit ''Implementation Details'',
      lit ''Testing & Validation'',
      lit ''Performance Analysis'',
      lit ''Security Considerations'',
      lit ''Future Enhancements'',
      lit ''Conclusion'']"

definition educational_titles :: "ustr list" where
  "educational_titles =
     [lit ''Learning Objectives'',
      lit ''Background & Context'',
      lit ''Key Concepts'',
      lit ''Detailed Explanation'',
      lit ''Real-world Examples'',
      lit ''Interactive Activity'',
      lit ''Assessment & Review'',
      lit ''Additional Resources'',
      lit ''Q&A Session'',
      lit ''Summary & Next Steps'']"

definition research_titles :: "ustr list" where
  "research_titles =
     [lit ''Research Question'',
      lit ''Literature Review'',
      lit ''Methodology'',
      lit ''Data Collection'',
      lit ''Results & Analysis'',
      lit ''Discussion'',
      lit ''Limitations'',
      lit ''Implications'',
      lit ''Future Research'',
      lit ''Conclusions'']"

text \<open>The module-level dict \<^verbatim>\<open>TEMPLATES\<close>, its four title lists named after their keys.\<close>

definition TEMPLATES :: "ustr \<rightharpoonup> ustr list" where
  "TEMPLATES =
     dict_literal
       [(lit ''business'', business_titles),
        (lit ''technical'', technical_titles),
        (lit ''educational'', educational_titles),
        (lit ''research'', research_titles)]"

section \<open>Slide content\<close>

text \<open>
  A slide is the dict \<^verbatim>\<open>{"title": ..., "content": ...}\<close> that
  \<^verbatim>\<open>generate_detailed_content\<close> builds: always these two keys, both strings.
\<close>

record slide =
  title :: ustr
  content :: ustr

text \<open>
  The local dict \<^verbatim>\<open>content_map\<close> of \<^verbatim>\<open>generate_slide_details\<close>. All ten f-strings are
  built from \<open>topic\<close> before the lookup.
\<close>

definition content_map :: "ustr \<Rightarrow> (ustr \<rightharpoonup> ustr)" where
  "content_map topic =
     dict_literal
       [(lit ''Executive Summary'',
           lit ''Brief overview of '' @ topic @ lit '' and its key benefits for stakeholders''),
        (lit ''Problem Statement'',
           lit ''Current challenges and pain points related to '' @ topic),
        (lit ''Market Analysis'',
           lit ''Market size, trends, and opportunities in the '' @ topic @ lit '' space''),
        (lit ''Solution Overview'',
           lit ''How '' @ topic @ lit '' addresses the identified problems''),
        (lit ''Introduction & Overview'',
           lit ''Welcome to our presentation on '' @ topic @ lit '' - setting the stage''),
        (lit ''Problem Definition'',
           lit ''Technical challenges and requirements for '' @ topic),
        (lit ''Learning Objectives'',
           lit ''What you will learn about '' @ topic @ lit '' by the end of this session''),
        (lit ''Research Question'',
           lit ''Key research questions driving our study of '' @ topic),
        (lit ''Background & Context'',
           lit ''Historical background and current state of '' @ topic),
        (lit ''Literature Review'',
           lit ''Previous research and findings related to '' @ topic)]"

definition generate_slide_details :: "ustr \<Rightarrow> ustr \<Rightarrow> ustr \<Rightarrow> ustr" where
  "generate_slide_details topic slide_title template_type =
     dict_get (content_map topic) slide_title
       (lit ''Detailed information about '' @ slide_title @ lit '' in the context of '' @ topic)"

section \<open>Outline generation\<close>

text \<open>
  The first statement of \<^verbatim>\<open>generate_detailed_content\<close>:
  \<^verbatim>\<open>template = TEMPLATES.get(template_type, TEMPLATES["business"])\<close>. The default argument
  \<^verbatim>\<open>TEMPLATES["business"]\<close> is evaluated first, whatever \<open>template_type\<close> is.
\<close>

definition resolve_template :: "ustr \<Rightarrow> py_error + ustr list" where
  "resolve_template template_type =
     (case dict_getitem TEMPLATES (lit ''business'') of
        Inl e \<Rightarrow> Inl e
      | Inr dflt \<Rightarrow> Inr (dict_get TEMPLATES template_type dflt))"

text \<open>
  The \<^verbatim>\<open>for i in range(...)\<close> loop, over the indices still to visit, with the list
  \<open>slides\<close> built so far.
\<close>

fun slides_loop :: "ustr \<Rightarrow> ustr \<Rightarrow> ustr list \<Rightarrow> int list \<Rightarrow> slide list \<Rightarrow> py_error + slide list" where
  "slides_loop topic template_type template [] slides = Inr slides"
| "slides_loop topic template_type template (i # rest) slides =
     (case list_getitem template i of
        Inl e \<Rightarrow> Inl e
      | Inr slide_title \<Rightarrow>
          let slide_content = generate_slide_details topic slide_title template_type
          in slides_loop topic template_type template rest
               (slides @
                [\<lparr>title = lit ''Slide '' @ str_of_int (i + 1) @ lit '': '' @ slide_title,
                  content = slide_content\<rparr>]))"

definition generate_detailed_content :: "ustr \<Rightarrow> ustr \<Rightarrow> int \<Rightarrow> py_error + slide list" where
  "generate_detailed_content topic template_type num_slides =
     (case resolve_template template_type of
        Inl e \<Rightarrow> Inl e
      | Inr template \<Rightarrow>
          slides_loop topic template_type template
            (py_range (min num_slides (len template))) [])"

section \<open>Export\<close>

text \<open>
  The dict \<^verbatim>\<open>json_data\<close>: \<^verbatim>\<open>{"presentation": {"topic": ..., "created": ..., "slides": ...}}\<close>.
\<close>

record presentation =
  p_topic :: ustr
  p_created :: ustr
  p_slides :: "slide list"

record json_data =
  j_presentation :: presentation

text \<open>
  The loop \<^verbatim>\<open>for slide in slides\<close>. A Python list iterator keeps an index into the list
  and reads the list as it is at each step, so the loop carries the list along with the
  index and the text built so far, and returns the list as the loop leaves it.
\<close>

function text_loop :: "slide list \<Rightarrow> nat \<Rightarrow> ustr \<Rightarrow> ustr \<times> slide list" where
  "text_loop slides idx text_content =
     (if idx < length slides then
        let slide = slides ! idx;
            text_content = text_content @ (title slide @ nl);
            text_content = text_content @ (str_mul (lit ''-'') (len (title slide)) @ nl);
            text_content = text_content @ (content slide @ nl @ nl)
        in text_loop slides (idx + 1) text_content
      else (text_content, slides))"
  by pat_completeness auto
termination
  by (relation "measure (\<lambda>(slides, idx, text_content). length slides - idx)") auto

declare text_loop.simps [simp del]

text \<open>
  \<^verbatim>\<open>export_to_formats(slides, topic)\<close>. Two things come from outside the program and are
  parameters: \<open>str_upper\<close>, Python's \<^verbatim>\<open>str.upper\<close>, and \<open>now_isoformat\<close>, the string
  \<^verbatim>\<open>datetime.datetime.now().isoformat()\<close> read from the clock. The function returns the
  pair \<^verbatim>\<open>(json_data, text_content)\<close> and, as a second component, the caller's list
  \<open>slides\<close> as it is when the function returns. The \<^verbatim>\<open>"slides"\<close> entry of
  \<^verbatim>\<open>json_data\<close> is that same list object, so it reads as the list reads at the return.
\<close>

definition export_to_formats ::
  "(ustr \<Rightarrow> ustr) \<Rightarrow> ustr \<Rightarrow> slide list \<Rightarrow> ustr \<Rightarrow> (json_data \<times> ustr) \<times> slide list" where
  "export_to_formats str_upper now_isoformat slides topic =
     (let text_content = lit ''PRESENTATION: '' @ str_upper topic @ nl;
          text_content = text_content @ (str_mul (lit ''='') 50 @ nl @ nl);
          (text_content, slides') = text_loop slides 0 text_content;
          json_data =
            \<lparr>j_presentation =
               \<lparr>p_topic = topic, p_created = now_isoformat, p_slides = slides'\<rparr>\<rparr>
      in ((json_data, text_content), slides'))"

section \<open>Closed forms used to state the results\<close>

text \<open>
  The slide that the loop of \<^verbatim>\<open>generate_detailed_content\<close> appends for the index \<open>j\<close>
  (counted from 0) of the list \<open>template\<close>, and the outline made of the first slides.
\<close>

definition slide_at :: "ustr \<Rightarrow> ustr \<Rightarrow> ustr list \<Rightarrow> nat \<Rightarrow> slide" where
  "slide_at topic template_type template j =
     \<lparr>title = lit ''Slide '' @ str_of_int (int j + 1) @ lit '': '' @ template ! j,
      content = generate_slide_details topic (template ! j) template_type\<rparr>"

definition outline :: "ustr \<Rightarrow> ustr \<Rightarrow> ustr list \<Rightarrow> int \<Rightarrow> slide list" where
  "outline topic template_type template num_slides =
     map (slide_at topic template_type template) [0..<nat (min num_slides (len template))]"

text \<open>
  The lines that the text export writes for one slide: the title, dashes under it, the
  content and an empty line.
\<close>

definition text_block :: "slide \<Rightarrow> ustr" where
  "text_block s =
     title s @ nl @ replicate (length (title s)) (of_char CHR ''-'') @ nl @ content s @ nl @ nl"

section \<open>Facts about the Python values and the tables\<close>

lemma lit_eq_iff [simp]: "lit a = lit b \<longleftrightarrow> a = b"
  unfolding lit_def by (simp add: inj_map_eq_map inj_of_char)

lemma TEMPLATES_cases:
  "TEMPLATES k =
     (if k = lit ''research'' then Some research_titles
      else if k = lit ''educational'' then Some educational_titles
      else if k = lit ''technical'' then Some technical_titles
      else if k = lit ''business'' then Some business_titles
      else None)"
  by (simp add: TEMPLATES_def dict_literal_def)

lemma TEMPLATES_business: "TEMPLATES (lit ''business'') = Some business_titles"
  by (simp add: TEMPLATES_cases)

lemma dom_TEMPLATES:
  "dom TEMPLATES = {lit ''business'', lit ''technical'', lit ''educational'', lit ''research''}"
  by (auto simp: TEMPLATES_cases dom_def split: if_splits)

lemma list_getitem_nat: "j < length xs \<Longrightarrow> list_getitem xs (int j) = Inr (xs ! j)"
  by (simp add: list_getitem_def len_def)

lemma slides_loop_upt:
  "n \<le> length template \<Longrightarrow>
   slides_loop topic template_type template (map int [m..<n]) acc =
     Inr (acc @ map (slide_at topic template_type template) [m..<n])"
proof (induction "n - m" arbitrary: m acc)
  case 0
  then show ?case by simp
next
  case (Suc d)
  then have m: "m < n" and rest: "d = n - Suc m"
    by simp_all
  have step: "[m..<n] = m # [Suc m..<n]"
    using m by (simp add: upt_conv_Cons)
  have get: "list_getitem template (int m) = Inr (template ! m)"
    using m Suc.prems by (simp add: list_getitem_nat)
  show ?case
    using Suc.hyps(1) [OF rest Suc.prems, of "acc @ [slide_at topic template_type template m]"]
    by (simp add: step get slide_at_def)
qed

lemma resolve_template_eq:
  "resolve_template template_type = Inr (dict_get TEMPLATES template_type business_titles)"
  by (simp add: resolve_template_def dict_getitem_def TEMPLATES_business)

lemma generate_detailed_content_outline:
  "generate_detailed_content topic template_type num_slides =
     Inr (outline topic template_type (dict_get TEMPLATES template_type business_titles) num_slides)"
proof -
  let ?t = "dict_get TEMPLATES template_type business_titles"
  have "nat (min num_slides (len ?t)) \<le> length ?t"
    by (simp add: len_def)
  from slides_loop_upt [OF this, of topic template_type 0 "[]"]
  show ?thesis
    by (simp add: generate_detailed_content_def resolve_template_eq py_range_def outline_def)
qed

lemma str_mul_char: "str_mul [c] n = replicate (nat n) c"
  by (induction "nat n" arbitrary: n) (simp_all add: str_mul_def replicate_app_Cons_same flip: replicate_Suc)

lemma str_mul_lit: "str_mul (lit [c]) n = replicate (nat n) (of_char c)"
  by (simp add: lit_def str_mul_char)

lemma text_loop_drop:
  "text_loop slides idx text_content =
     (text_content @ concat (map text_block (drop idx slides)), slides)"
proof (induction slides idx text_content rule: text_loop.induct)
  case (1 slides idx text_content)
  show ?case
  proof (cases "idx < length slides")
    case True
    let ?s = "slides ! idx"
    let ?t = "((text_content @ (title ?s @ nl)) @ (str_mul (lit ''-'') (len (title ?s)) @ nl))
                @ (content ?s @ nl @ nl)"
    have blk: "?t = text_content @ text_block ?s"
      by (simp add: text_block_def str_mul_lit len_def)
    have d: "drop idx slides = ?s # drop (Suc idx) slides"
      using True by (simp add: Cons_nth_drop_Suc)
    have "text_loop slides idx text_content = text_loop slides (idx + 1) ?t"
      using True by (subst text_loop.simps) (simp add: Let_def)
    also have "\<dots> = (?t @ concat (map text_block (drop (idx + 1) slides)), slides)"
      by (rule "1.IH" [OF True refl refl refl refl])
    also have "\<dots> = (text_content @ concat (map text_block (drop idx slides)), slides)"
      by (simp only: blk d) simp
    finally show ?thesis .
  next
    case False
    then show ?thesis
      by (subst text_loop.simps) simp
  qed
qed

lemma export_to_formats_eq:
  "export_to_formats str_upper now_isoformat slides topic =
     ((\<lparr>j_presentation =
          \<lparr>p_topic = topic, p_created = now_isoformat, p_slides = slides\<rparr>\<rparr>,
       lit ''PRESENTATION: '' @ str_upper topic @ nl @ replicate 50 (of_char CHR ''='') @ nl @ nl
         @ concat (map text_block slides)),
      slides)"
  by (simp add: export_to_formats_def text_loop_drop str_mul_lit)

lemma content_map_cases:
  "content_map topic k =
     (if k = lit ''Literature Review'' then
        Some (lit ''Previous research and findings related to '' @ topic)
      else if k = lit ''Background & Context'' then
        Some (lit ''Historical background and current state of '' @ topic)
      else if k = lit ''Research Question'' then
        Some (lit ''Key research questions driving our study of '' @ topic)
      else if k = lit ''Learning Objectives'' then
        Some (lit ''What you will learn about '' @ topic @ lit '' by the end of this session'')
      else if k = lit ''Problem Definition'' then
        Some (lit ''Technical challenges and requirements for '' @ topic)
      else if k = lit ''Introduction & Overview'' then
        Some (lit ''Welcome to our presentation on '' @ topic @ lit '' - setting the stage'')
      else if k = lit ''Solution Overview'' then
        Some (lit ''How '' @ topic @ lit '' addresses the identified problems'')
      else if k = lit ''Market Analysis'' then
        Some (lit ''Market size, trends, and opportunities in the '' @ topic @ lit '' space'')
      else if k = lit ''Problem Statement'' then
        Some (lit ''Current challenges and pain points related to '' @ topic)
      else if k = lit ''Executive Summary'' then
        Some (lit ''Brief overview of '' @ topic @ lit '' and its key benefits for stakeholders'')
      else None)"
  by (simp add: content_map_def dict_literal_def)

lemma dom_content_map:
  "dom (content_map topic) =
     {lit ''Executive Summary'', lit ''Problem Statement'', lit ''Market Analysis'',
      lit ''Solution Overview'', lit ''Introduction & Overview'', lit ''Problem Definition'',
      lit ''Learning Objectives'', lit ''Research Question'', lit ''Background & Context'',
      lit ''Literature Review''}"
  by (auto simp: content_map_cases dom_def split: if_splits)

lemma content_map_embeds_topic:
  "content_map topic k = Some v \<Longrightarrow> \<exists>ps ss. v = ps @ topic @ ss"
  by (auto simp: content_map_cases split: if_splits intro: exI [where x = "[]"])

lemma str_of_int_digit: "0 \<le> i \<Longrightarrow> i < 10 \<Longrightarrow> str_of_int i = [48 + nat i]"
  by (simp add: str_of_int_def digits.simps)

section \<open>The outline generator\<close>

text \<open>
  Claim C1, as amended. For every topic, every category \<open>C\<close> that is a key of
  \<open>TEMPLATES\<close> and every integer \<open>k\<close>, \<open>generate_detailed_content\<close> raises no error; the
  outline it returns is empty when \<open>k\<close> is zero or negative, and has
  \<open>min k (length of C's title list)\<close> slides when \<open>k\<close> is positive.
\<close>

theorem outline_length:
  assumes "TEMPLATES C = Some titles"
  shows "\<exists>slides. generate_detailed_content topic C k = Inr slides \<and>
           int (length slides) = (if k \<le> 0 then 0 else min k (int (length titles)))"
  using assms by (simp add: generate_detailed_content_outline outline_def dict_get_def len_def)

theorem outline_length_witness:
  "TEMPLATES (lit ''technical'') = Some technical_titles \<and>
   (\<exists>slides. generate_detailed_content (lit ''X'') (lit ''technical'') 3 = Inr slides \<and>
      int (length slides) = 3)"
proof -
  have h: "TEMPLATES (lit ''technical'') = Some technical_titles"
    by (simp add: TEMPLATES_cases)
  show ?thesis
    using h outline_length [OF h, of "lit ''X''" 3] by (simp add: technical_titles_def)
qed

text \<open>
  The length is not \<open>min k (length of the title list)\<close> for every integer \<open>k\<close>: for
  \<open>k = -1\<close> the loop runs over \<^verbatim>\<open>range(-1)\<close>, which is empty, so the outline has length
  \<open>0\<close>, while the minimum is \<open>-1\<close>.
\<close>

theorem outline_length_negative_counterexample:
  "generate_detailed_content (lit ''X'') (lit ''technical'') (- 1) = Inr [] \<and>
   TEMPLATES (lit ''technical'') = Some technical_titles \<and>
   int (length (projr (generate_detailed_content (lit ''X'') (lit ''technical'') (- 1))))
     \<noteq> min (- 1) (int (length technical_titles))"
  by (simp add: generate_detailed_content_outline outline_def TEMPLATES_cases)

text \<open>
  Claim C2. In every outline that \<open>generate_detailed_content\<close> returns, the slide at
  position \<open>i\<close> counted from 0 (the slide number \<open>i + 1\<close>) has the title
  \<^verbatim>\<open>"Slide {i+1}: {t}"\<close>, where \<open>t\<close> is the title at the same position of the resolved
  template list: the numbers are 1, 2, 3, ... without gaps.
\<close>

theorem slide_titles:
  assumes "generate_detailed_content topic template_type k = Inr slides"
    and "resolve_template template_type = Inr template"
    and "i < length slides"
  shows "i < length template \<and>
         title (slides ! i) = lit ''Slide '' @ str_of_int (int i + 1) @ lit '': '' @ template ! i"
proof -
  have t: "template = dict_get TEMPLATES template_type business_titles"
    using assms(2) by (simp add: resolve_template_eq)
  have s: "slides = outline topic template_type template k"
    using assms(1) by (simp add: generate_detailed_content_outline t)
  have i: "i < nat (min k (len template))"
    using assms(3) by (simp add: s outline_def)
  then have "i < length template"
    by (simp add: len_def)
  moreover have "slides ! i = slide_at topic template_type template i"
    using i by (simp add: s outline_def)
  ultimately show ?thesis
    by (simp add: slide_at_def)
qed

theorem slide_titles_witness:
  "generate_detailed_content (lit ''AI'') (lit ''research'') 2 =
     Inr (outline (lit ''AI'') (lit ''research'') research_titles 2) \<and>
   resolve_template (lit ''research'') = Inr research_titles \<and>
   1 < length (outline (lit ''AI'') (lit ''research'') research_titles 2) \<and>
   title (outline (lit ''AI'') (lit ''research'') research_titles 2 ! 1) =
     lit ''Slide 2: Literature Review''"
proof -
  have r: "resolve_template (lit ''research'') = Inr research_titles"
    by (simp add: resolve_template_eq dict_get_def TEMPLATES_cases)
  have g: "generate_detailed_content (lit ''AI'') (lit ''research'') 2 =
      Inr (outline (lit ''AI'') (lit ''research'') research_titles 2)"
    by (simp add: generate_detailed_content_outline dict_get_def TEMPLATES_cases)
  have l: "1 < length (outline (lit ''AI'') (lit ''research'') research_titles 2)"
    by (simp add: outline_def len_def research_titles_def)
  have e: "lit ''Slide '' @ str_of_int (int 1 + 1) @ lit '': '' @ research_titles ! 1 =
      lit ''Slide 2: Literature Review''"
    by (simp add: research_titles_def str_of_int_digit lit_def)
  from slide_titles [OF g r l] r g l e show ?thesis
    by simp
qed

text \<open>
  Claim C5. For every category string other than the four keys \<^verbatim>\<open>business\<close>,
  \<^verbatim>\<open>technical\<close>, \<^verbatim>\<open>educational\<close> and \<^verbatim>\<open>research\<close>, the template resolves to the
  title list of \<^verbatim>\<open>business\<close>, and \<open>generate_detailed_content\<close> raises no error: it
  returns the outline built from the \<^verbatim>\<open>business\<close> titles, the same outline as for the
  category \<^verbatim>\<open>business\<close> itself.
\<close>

theorem unknown_category_falls_back:
  assumes "template_type \<notin>
             {lit ''business'', lit ''technical'', lit ''educational'', lit ''research''}"
  shows "resolve_template template_type = Inr business_titles \<and>
         generate_detailed_content topic template_type k =
           Inr (outline topic template_type business_titles k) \<and>
         generate_detailed_content topic template_type k =
           generate_detailed_content topic (lit ''business'') k"
proof -
  have "TEMPLATES template_type = None"
    using assms by (simp add: TEMPLATES_cases)
  then have t: "dict_get TEMPLATES template_type business_titles = business_titles"
    by (simp add: dict_get_def)
  have b: "dict_get TEMPLATES (lit ''business'') business_titles = business_titles"
    by (simp add: dict_get_def TEMPLATES_business)
  have o: "outline topic template_type business_titles k =
      outline topic (lit ''business'') business_titles k"
    by (simp add: outline_def slide_at_def generate_slide_details_def)
  show ?thesis
    by (simp add: resolve_template_eq generate_detailed_content_outline t b o)
qed

theorem unknown_category_falls_back_witness:
  "lit ''unknown_category'' \<notin>
     {lit ''business'', lit ''technical'', lit ''educational'', lit ''research''} \<and>
   resolve_template (lit ''unknown_category'') = Inr business_titles \<and>
   generate_detailed_content (lit ''Quantum Computing'') (lit ''unknown_category'') 2 =
     Inr [\<lparr>title = lit ''Slide 1: Executive Summary'',
            content = lit ''Brief overview of Quantum Computing and its key benefits for stakeholders''\<rparr>,
          \<lparr>title = lit ''Slide 2: Problem Statement'',
            content = lit ''Current challenges and pain points related to Quantum Computing''\<rparr>]"
proof -
  have h: "lit ''unknown_category'' \<notin>
      {lit ''business'', lit ''technical'', lit ''educational'', lit ''research''}"
    by simp
  have u: "[0..<2] = [0, Suc 0]"
    by (simp add: upt_conv_Cons)
  have o: "outline (lit ''Quantum Computing'') (lit ''unknown_category'') business_titles 2 =
      [\<lparr>title = lit ''Slide 1: Executive Summary'',
         content = lit ''Brief overview of Quantum Computing and its key benefits for stakeholders''\<rparr>,
       \<lparr>title = lit ''Slide 2: Problem Statement'',
         content = lit ''Current challenges and pain points related to Quantum Computing''\<rparr>]"
    by (simp add: outline_def len_def business_titles_def u slide_at_def str_of_int_digit
        generate_slide_details_def dict_get_def content_map_cases)
      (simp add: lit_def)
  from unknown_category_falls_back [OF h, of "lit ''Quantum Computing''" 2] h o show ?thesis
    by simp
qed

text \<open>
  Claim C9. \<^verbatim>\<open>generate_detailed_content("Machine Learning", "business", 3)\<close> returns three
  slides, titled \<^verbatim>\<open>Slide 1: Executive Summary\<close>, \<^verbatim>\<open>Slide 2: Problem Statement\<close> and
  \<^verbatim>\<open>Slide 3: Market Analysis\<close>, and the content of the first is
  \<^verbatim>\<open>Brief overview of Machine Learning and its key benefits for stakeholders\<close>.
\<close>

theorem machine_learning_example:
  "\<exists>slides. generate_detailed_content (lit ''Machine Learning'') (lit ''business'') 3 = Inr slides \<and>
     map title slides =
       [lit ''Slide 1: Executive Summary'',
        lit ''Slide 2: Problem Statement'',
        lit ''Slide 3: Market Analysis''] \<and>
     content (slides ! 0) =
       lit ''Brief overview of Machine Learning and its key benefits for stakeholders''"
proof -
  have u: "[0..<3] = [0, Suc 0, Suc (Suc 0)]"
    by (simp add: upt_conv_Cons)
  have "generate_detailed_content (lit ''Machine Learning'') (lit ''business'') 3 =
      Inr [\<lparr>title = lit ''Slide 1: Executive Summary'',
             content = lit ''Brief overview of Machine Learning and its key benefits for stakeholders''\<rparr>,
           \<lparr>title = lit ''Slide 2: Problem Statement'',
             content = lit ''Current challenges and pain points related to Machine Learning''\<rparr>,
           \<lparr>title = lit ''Slide 3: Market Analysis'',
             content = lit ''Market size, trends, and opportunities in the Machine Learning space''\<rparr>]"
    by (simp add: generate_detailed_content_outline TEMPLATES_business outline_def len_def
        business_titles_def u slide_at_def str_of_int_digit generate_slide_details_def
        dict_get_def content_map_cases)
      (simp add: lit_def)
  then show ?thesis
    by simp
qed

section \<open>The content of a slide\<close>

text \<open>
  Claim C3. For a title \<open>T\<close> that is not a key of \<open>content_map\<close>, and every topic \<open>S\<close> and
  category \<open>c\<close>, \<open>generate_slide_details S T c\<close> is the string
  \<^verbatim>\<open>"Detailed information about {T} in the context of {S}"\<close>.
\<close>

theorem fallback_content:
  assumes "T \<notin> dom (content_map S)"
  shows "generate_slide_details S T c =
           lit ''Detailed information about '' @ T @ lit '' in the context of '' @ S"
  using assms by (simp add: generate_slide_details_def dict_get_def domIff)

theorem fallback_content_witness:
  "lit ''Conclusion'' \<notin> dom (content_map (lit ''AI'')) \<and>
   generate_slide_details (lit ''AI'') (lit ''Conclusion'') (lit ''technical'') =
     lit ''Detailed information about Conclusion in the context of AI''"
proof -
  have h: "lit ''Conclusion'' \<notin> dom (content_map (lit ''AI''))"
    by (simp add: dom_content_map)
  have e: "lit ''Detailed information about '' @ lit ''Conclusion'' @ lit '' in the context of ''
             @ lit ''AI'' = lit ''Detailed information about Conclusion in the context of AI''"
    by (simp add: lit_def)
  from fallback_content [OF h, of "lit ''technical''"] h e show ?thesis
    by simp
qed

text \<open>
  Claim C4. For a title \<open>T\<close> that is a key of \<open>content_map\<close>, and every topic \<open>S\<close>, the
  string \<open>generate_slide_details S T c\<close> contains \<open>S\<close> itself, unchanged, as a contiguous
  substring.
\<close>

theorem canned_content_embeds_topic:
  assumes "T \<in> dom (content_map S)"
  shows "sublist S (generate_slide_details S T c)"
proof -
  from assms obtain v where v: "content_map S T = Some v"
    by auto
  then obtain ps ss where "v = ps @ S @ ss"
    using content_map_embeds_topic by blast
  moreover have "generate_slide_details S T c = v"
    by (simp add: generate_slide_details_def dict_get_def v)
  ultimately show ?thesis
    by simp
qed

theorem canned_content_embeds_topic_witness:
  "lit ''Market Analysis'' \<in> dom (content_map (lit ''AI'')) \<and>
   generate_slide_details (lit ''AI'') (lit ''Market Analysis'') (lit ''business'') =
     lit ''Market size, trends, and opportunities in the AI space'' \<and>
   sublist (lit ''AI'') (lit ''Market size, trends, and opportunities in the AI space'')"
proof -
  have h: "lit ''Market Analysis'' \<in> dom (content_map (lit ''AI''))"
    by (simp add: dom_content_map)
  have e: "generate_slide_details (lit ''AI'') (lit ''Market Analysis'') (lit ''business'') =
      lit ''Market size, trends, and opportunities in the AI space''"
    by (simp add: generate_slide_details_def dict_get_def content_map_cases) (simp add: lit_def)
  from canned_content_embeds_topic [OF h, of "lit ''business''"] h e show ?thesis
    by simp
qed

text \<open>
  Claim C8. For every topic \<open>S\<close>, title \<open>T\<close> and categories \<open>c1\<close> and \<open>c2\<close>,
  \<open>generate_slide_details S T c1\<close> equals \<open>generate_slide_details S T c2\<close>: the content
  depends on the title and the topic only.
\<close>

theorem slide_details_ignore_category:
  "generate_slide_details S T c1 = generate_slide_details S T c2"
  by (simp add: generate_slide_details_def)

section \<open>The exporter\<close>

text \<open>
  Claim C6. For every slide list and topic, the text that \<open>export_to_formats\<close> returns is
  the line \<^verbatim>\<open>PRESENTATION: \<close> followed by the upper-cased topic, a line of 50 characters
  \<^verbatim>\<open>=\<close>, an empty line, and then for each slide in order: its title line, a line of as
  many characters \<^verbatim>\<open>-\<close> as the title has characters, the content as it is, and an empty
  line.
\<close>

theorem text_export_layout:
  "snd (fst (export_to_formats str_upper now_isoformat slides topic)) =
     lit ''PRESENTATION: '' @ str_upper topic @ nl @
     replicate 50 (of_char CHR ''='') @ nl @
     nl @
     concat (map (\<lambda>slide.
        title slide @ nl @
        replicate (length (title slide)) (of_char CHR ''-'') @ nl @
        content slide @ nl @
        nl) slides)"
  by (simp add: export_to_formats_eq text_block_def [abs_def])

text \<open>
  Claim C7. For every slide list and topic, the \<^verbatim>\<open>"slides"\<close> entry of the structured
  record that \<open>export_to_formats\<close> returns is the input slide list, slide for slide, and
  its \<^verbatim>\<open>"topic"\<close> entry is the input topic. The \<^verbatim>\<open>"created"\<close> entry is not compared.
\<close>

theorem structured_record_roundtrip:
  "p_slides (j_presentation (fst (fst (export_to_formats str_upper now_isoformat slides topic))))
     = slides \<and>
   p_topic (j_presentation (fst (fst (export_to_formats str_upper now_isoformat slides topic))))
     = topic"
  by (simp add: export_to_formats_eq)

text \<open>
  Claim C10. For every slide list and topic, the slide list is after the call of
  \<open>export_to_formats\<close> what it was before: the same length, and the same title and
  content in every slide.
\<close>

theorem export_leaves_slides_unchanged:
  "snd (export_to_formats str_upper now_isoformat slides topic) = slides"
  by (simp add: export_to_formats_eq)

end
